theory Spec2Isabelle
  imports Complex_Main "HOL-Library.Sublist"
begin

section \<open>Strings\<close>

text \<open>
  Python \<open>str\<close> values are modelled as \<open>string\<close>: one \<open>char\<close> stands for one code
  point, and the code points are those below 256. On these \<open>str.lower\<close> works
  character by character: it folds the capital letters A to Z and the capital letters
  from U+00C0 to U+00DE, U+00D7 apart, each to the code point 32 above it, and leaves
  every other character as it is. \<open>str.strip\<close> removes the characters for which
  \<open>str.isspace\<close> holds.
\<close>

definition lower_char :: "char \<Rightarrow> char" where
  "lower_char c =
     (case map_of
        (zip (''ABCDEFGHIJKLMNOPQRSTUVWXYZ'' @
              [CHR 0xC0, CHR 0xC1, CHR 0xC2, CHR 0xC3, CHR 0xC4, CHR 0xC5, CHR 0xC6, CHR 0xC7,
               CHR 0xC8, CHR 0xC9, CHR 0xCA, CHR 0xCB, CHR 0xCC, CHR 0xCD, CHR 0xCE, CHR 0xCF,
               CHR 0xD0, CHR 0xD1, CHR 0xD2, CHR 0xD3, CHR 0xD4, CHR 0xD5, CHR 0xD6, CHR 0xD8,
               CHR 0xD9, CHR 0xDA, CHR 0xDB, CHR 0xDC, CHR 0xDD, CHR 0xDE])
             (''abcdefghijklmnopqrstuvwxyz'' @
              [CHR 0xE0, CHR 0xE1, CHR 0xE2, CHR 0xE3, CHR 0xE4, CHR 0xE5, CHR 0xE6, CHR 0xE7,
               CHR 0xE8, CHR 0xE9, CHR 0xEA, CHR 0xEB, CHR 0xEC, CHR 0xED, CHR 0xEE, CHR 0xEF,
               CHR 0xF0, CHR 0xF1, CHR 0xF2, CHR 0xF3, CHR 0xF4, CHR 0xF5, CHR 0xF6, CHR 0xF8,
               CHR 0xF9, CHR 0xFA, CHR 0xFB, CHR 0xFC, CHR 0xFD, CHR 0xFE])) c of
        Some d \<Rightarrow> d
      | None \<Rightarrow> c)"

definition str_lower :: "string \<Rightarrow> string" where
  "str_lower s = map lower_char s"

definition is_space :: "char \<Rightarrow> bool" where
  "is_space c =
     (c \<in> set [CHR '' '', CHR 0x09, CHR 0x0A, CHR 0x0B, CHR 0x0C, CHR 0x0D,
                CHR 0x1C, CHR 0x1D, CHR 0x1E, CHR 0x1F, CHR 0x85, CHR 0xA0])"

definition str_strip :: "string \<Rightarrow> string" where
  "str_strip s = rev (dropWhile is_space (rev (dropWhile is_space s)))"

text \<open>\<open>a in b\<close> on two Python strings: \<open>a\<close> occurs in \<open>b\<close> as a contiguous block.\<close>

fun str_in :: "string \<Rightarrow> string \<Rightarrow> bool" where
  "str_in xs [] = (xs = [])"
| "str_in xs (y # ys) = (prefix xs (y # ys) \<or> str_in xs ys)"


section \<open>gemini.py\<close>

text \<open>
  \<open>class IncidentAnalysis(BaseModel)\<close>. A Python \<open>float\<close> is modelled by the real
  number it denotes; the constants \<open>0.5\<close>, \<open>0.3\<close> and \<open>0.7\<close> are those of the source
  text. Not-a-number values and the rounding of decimal literals are outside the model.
\<close>

record incident_analysis =
  relevance_score :: real
  severity :: string
  category :: string
  is_credible :: bool
  summary :: string

text \<open>
  What \<open>client.models.generate_content\<close> does when it is called: it raises, or it
  returns a response whose \<open>text\<close> attribute is \<open>None\<close> or a string.
\<close>

datatype llm_reply = Llm_raises | Llm_text "string option"

datatype py_error = ApiError | ValueError | ValidationError | TypeError

text \<open>
  The body of the \<open>try\<close> block of \<open>analyze_incident\<close>. The argument \<open>parse\<close> stands for
  \<open>IncidentAnalysis(**json.loads(raw_json))\<close>: \<open>None\<close> when decoding or schema
  validation raises.
\<close>

definition analyze_incident_try ::
  "(string \<Rightarrow> incident_analysis option) \<Rightarrow> llm_reply \<Rightarrow> py_error + incident_analysis" where
  "analyze_incident_try parse reply =
     (case reply of
        Llm_raises \<Rightarrow> Inl ApiError
      | Llm_text raw_json \<Rightarrow>
          (case raw_json of
             None \<Rightarrow> Inl ValueError
           | Some s \<Rightarrow>
               if s \<noteq> [] then
                 (case parse s of None \<Rightarrow> Inl ValidationError | Some a \<Rightarrow> Inr a)
               else Inl ValueError))"

text \<open>The value built in the \<open>except\<close> branch: \<open>f"{title}: {description[:100]}..."\<close>.\<close>

definition default_analysis :: "string \<Rightarrow> string \<Rightarrow> incident_analysis" where
  "default_analysis title description =
     \<lparr>relevance_score = 0.5,
      severity = ''medium'',
      category = ''other'',
      is_credible = True,
      summary = title @ '': '' @ take 100 description @ ''...''\<rparr>"

text \<open>
  \<open>analyze_incident(title, description, source, location)\<close>; \<open>source\<close> and \<open>location\<close>
  only enter the prompt. The description is declared \<open>str\<close>; the caller can still hand
  over \<open>None\<close> (the weather path stores \<open>alert.get('description', ...)\<close>, which is
  \<open>None\<close> for a JSON \<open>null\<close>), so the argument is a \<open>string option\<close>. The prompt is
  an f-string and takes \<open>None\<close>; the slice \<open>description[:100]\<close> in the \<open>except\<close>
  branch does not: there \<open>None\<close> raises \<open>TypeError\<close>, which leaves the function
  (\<open>Inl\<close>).
\<close>

definition analyze_incident ::
  "(string \<Rightarrow> incident_analysis option) \<Rightarrow> llm_reply \<Rightarrow>
   string \<Rightarrow> string option \<Rightarrow> string \<Rightarrow> string \<Rightarrow> py_error + incident_analysis" where
  "analyze_incident parse reply title description source location =
     (case analyze_incident_try parse reply of
        Inr a \<Rightarrow> Inr a
      | Inl e \<Rightarrow>
          (case description of
             None \<Rightarrow> Inl TypeError
           | Some text \<Rightarrow> Inr (default_analysis title text)))"

text \<open>
  \<open>filter_credible_sources(content, source_url)\<close>: both arguments only enter the prompt.
\<close>

definition filter_credible_sources :: "llm_reply \<Rightarrow> string \<Rightarrow> string option \<Rightarrow> bool" where
  "filter_credible_sources reply content source_url =
     (case reply of
        Llm_raises \<Rightarrow> True
      | Llm_text t \<Rightarrow>
          (let result = (case t of
                           None \<Rightarrow> []
                         | Some s \<Rightarrow> if s \<noteq> [] then str_lower (str_strip s) else [])
           in result = ''true''))"


section \<open>models.py\<close>

text \<open>Timestamps are microseconds since the epoch, the resolution of \<open>datetime\<close>.\<close>

type_synonym timestamp = int

definition hours_24 :: int where
  "hours_24 = 24 * 3600 * 1000000"

record alert_subscription =
  sub_location :: string
  categories :: "string option"
  min_severity :: "string option"
  is_active :: "bool option"

record user =
  user_id :: nat
  username :: string
  email :: string
  user_location :: string
  email_notifications :: "bool option"
  subscriptions :: "alert_subscription list"

record incident =
  inc_id :: nat
  inc_title :: string
  inc_description :: string
  inc_source :: string
  inc_location :: string
  inc_severity :: string
  inc_category :: string
  inc_url :: "string option"
  inc_raw_data :: "string option"
  inc_ai_summary :: "string option"
  inc_relevance_score :: real
  inc_is_verified :: bool
  inc_created_at :: timestamp
  inc_updated_at :: timestamp

text \<open>A \<open>NotificationLog\<close> row; its surrogate key, which nothing reads, is left out.\<close>

record notification_log =
  log_incident_id :: nat
  log_user_id :: nat
  notification_type :: string
  status :: string
  error_message :: "string option"

text \<open>
  What \<open>d.get(key)\<close> finds in a dictionary under a key that holds text: the key is
  missing, or its value is \<open>None\<close> (a JSON \<open>null\<close>), or it is a string.
\<close>

datatype json_str = Absent | Null | Str string

text \<open>
  The dictionary that the fetchers build for one incident. The four keys read with
  \<open>incident_data[...]\<close> are always present and hold strings here. The category is
  read with \<open>.get('category', 'other')\<close>, where a missing key and a \<open>None\<close> value
  differ. For \<open>url\<close> and \<open>raw_data\<close>, whose columns may be \<open>NULL\<close>, \<open>None\<close> stands
  for a missing key or a \<open>None\<close> value.
\<close>

record incident_data =
  title :: string
  description :: string
  source :: string
  location :: string
  data_category :: json_str
  url :: "string option"
  raw_data :: "string option"


section \<open>agents/notification_agent.py\<close>

text \<open>
  The tables behind \<open>db.session\<close>, in insertion order, with the next primary key of
  the incident table. Two more fields record what the agent does to the outside:
  \<open>outbox\<close> lists the calls of \<open>email_service.send_alert_email\<close> (user id, incident
  id) and \<open>calls\<close> lists the entries into \<open>save_analyzed_incident\<close> and
  \<open>send_notifications\<close>.
\<close>

datatype call =
  Call_save_analyzed_incident string string
| Call_send_notifications nat

record world =
  incidents :: "incident list"
  users :: "user list"
  notification_logs :: "notification_log list"
  next_incident_id :: nat
  outbox :: "(nat \<times> nat) list"
  calls :: "call list"

text \<open>What \<open>send_alert_email(user, incident)\<close> does: it returns a flag or raises.\<close>

datatype email_result = Returns bool | Raises string

text \<open>
  What the outside answers while one incident is processed: the two replies of the
  model service, the clock, whether the database statements of
  \<open>save_analyzed_incident\<close> go through, whether the user query of
  \<open>get_eligible_users\<close> goes through, the email transport, and whether the commit of
  \<open>send_notifications\<close> goes through.
\<close>

record responses =
  analysis_reply :: llm_reply
  credibility_reply :: llm_reply
  now :: timestamp
  save_db_ok :: bool
  users_query_ok :: bool
  send_alert_email :: "user \<Rightarrow> email_result"
  notify_commit_ok :: bool

subsection \<open>get_eligible_users\<close>

text \<open>\<open>severity_levels.get(incident.severity, 2)\<close>.\<close>

definition severity_level :: "string \<Rightarrow> nat" where
  "severity_level s =
     (case map_of [(''low'', 1), (''medium'', 2), (''high'', 3), (''critical'', 4)] s of
        Some n \<Rightarrow> n
      | None \<Rightarrow> 2)"

text \<open>The loop over the rows of \<open>User.query.filter_by(email_notifications=True).all()\<close>.\<close>

fun match_users :: "incident \<Rightarrow> user list \<Rightarrow> user list \<Rightarrow> user list" where
  "match_users inc [] eligible_users = eligible_users"
| "match_users inc (u # us) eligible_users =
     (if str_in (str_lower (user_location u)) (str_lower (inc_location inc))
         \<or> str_in (str_lower (inc_location inc)) (str_lower (user_location u))
      then
        (let incident_severity_level = severity_level (inc_severity inc) in
         if incident_severity_level \<ge> 2
         then match_users inc us (eligible_users @ [u])
         else match_users inc us eligible_users)
      else match_users inc us eligible_users)"

text \<open>A failing query is caught by the \<open>except\<close> branch, which returns the empty list.\<close>

definition get_eligible_users :: "bool \<Rightarrow> user list \<Rightarrow> incident \<Rightarrow> user list" where
  "get_eligible_users query_ok all_users inc =
     (if query_ok
      then match_users inc (filter (\<lambda>u. email_notifications u = Some True) all_users) []
      else [])"

subsection \<open>send_notifications\<close>

text \<open>
  The loop over the eligible users. The accumulator holds the transport calls made so
  far and the \<open>NotificationLog\<close> objects added to the session so far.
\<close>

fun notify_users ::
  "(user \<Rightarrow> email_result) \<Rightarrow> incident \<Rightarrow> user list \<Rightarrow>
   (nat \<times> nat) list \<times> notification_log list \<Rightarrow> (nat \<times> nat) list \<times> notification_log list" where
  "notify_users send inc [] acc = acc"
| "notify_users send inc (u # us) (attempts, added) =
     (if email_notifications u = Some True then
        (case send u of
           Returns success \<Rightarrow>
             notify_users send inc us
               (attempts @ [(user_id u, inc_id inc)],
                added @ [\<lparr>log_incident_id = inc_id inc,
                          log_user_id = user_id u,
                          notification_type = ''email'',
                          status = (if success then ''sent'' else ''failed''),
                          error_message =
                            (if success then None else Some ''Email sending failed'')\<rparr>])
         | Raises e \<Rightarrow>
             notify_users send inc us
               (attempts @ [(user_id u, inc_id inc)],
                added @ [\<lparr>log_incident_id = inc_id inc,
                          log_user_id = user_id u,
                          notification_type = ''email'',
                          status = ''failed'',
                          error_message = Some e\<rparr>]))
      else notify_users send inc us (attempts, added))"

text \<open>
  The added rows reach the table when the final commit goes through; otherwise the
  session is rolled back and none of them does.
\<close>

definition send_notifications :: "responses \<Rightarrow> incident \<Rightarrow> world \<Rightarrow> world" where
  "send_notifications r inc w =
     (let eligible_users = get_eligible_users (users_query_ok r) (users w) inc;
          (attempts, added) = notify_users (send_alert_email r) inc eligible_users ([], []);
          w1 = w\<lparr>calls := calls w @ [Call_send_notifications (inc_id inc)],
                 outbox := outbox w @ attempts\<rparr>
      in if notify_commit_ok r
         then w1\<lparr>notification_logs := notification_logs w @ added\<rparr>
         else w1)"

subsection \<open>save_analyzed_incident\<close>

text \<open>
  \<open>Incident.query.filter_by(title=..., source=...).filter(Incident.created_at >=
  datetime.utcnow() - timedelta(hours=24))\<close>, as a predicate on a row.
\<close>

definition recent_match :: "timestamp \<Rightarrow> incident_data \<Rightarrow> incident \<Rightarrow> bool" where
  "recent_match t d row =
     (inc_title row = title d \<and> inc_source row = source d
      \<and> inc_created_at row \<ge> t - hours_24)"

text \<open>
  The object that \<open>.first()\<close> returned is changed in place. The query has no
  \<open>ORDER BY\<close>; the model takes the first matching row in table order.
\<close>

fun update_first :: "('a \<Rightarrow> bool) \<Rightarrow> ('a \<Rightarrow> 'a) \<Rightarrow> 'a list \<Rightarrow> 'a list" where
  "update_first P f [] = []"
| "update_first P f (x # xs) = (if P x then f x # xs else x # update_first P f xs)"

definition apply_analysis :: "timestamp \<Rightarrow> incident_analysis \<Rightarrow> incident \<Rightarrow> incident" where
  "apply_analysis t a existing =
     existing\<lparr>inc_ai_summary := Some (summary a),
              inc_relevance_score := relevance_score a,
              inc_severity := severity a,
              inc_category := category a,
              inc_is_verified := is_credible a,
              inc_updated_at := t\<rparr>"

definition new_analyzed_incident ::
  "nat \<Rightarrow> timestamp \<Rightarrow> incident_data \<Rightarrow> incident_analysis \<Rightarrow> incident" where
  "new_analyzed_incident n t d a =
     \<lparr>inc_id = n,
      inc_title = title d,
      inc_description = description d,
      inc_source = source d,
      inc_location = location d,
      inc_severity = severity a,
      inc_category = category a,
      inc_url = url d,
      inc_raw_data = raw_data d,
      inc_ai_summary = Some (summary a),
      inc_relevance_score = relevance_score a,
      inc_is_verified = is_credible a,
      inc_created_at = t,
      inc_updated_at = t\<rparr>"

text \<open>
  When a database statement raises, the \<open>except\<close> branch rolls back and returns \<open>None\<close>.
  The clock is read once for the call: \<open>t\<close> is the time of the query, of the update and
  of the insertion.
\<close>

definition save_analyzed_incident ::
  "timestamp \<Rightarrow> bool \<Rightarrow> incident_data \<Rightarrow> incident_analysis \<Rightarrow> world \<Rightarrow> incident option \<times> world" where
  "save_analyzed_incident t db_ok d a w =
     (let w1 = w\<lparr>calls := calls w @ [Call_save_analyzed_incident (title d) (source d)]\<rparr> in
      if \<not> db_ok then (None, w1)
      else
        (case find (recent_match t d) (incidents w) of
           Some existing \<Rightarrow>
             (Some (apply_analysis t a existing),
              w1\<lparr>incidents := update_first (recent_match t d) (apply_analysis t a) (incidents w)\<rparr>)
         | None \<Rightarrow>
             (let inc = new_analyzed_incident (next_incident_id w) t d a in
              (Some inc,
               w1\<lparr>incidents := incidents w @ [inc],
                   next_incident_id := Suc (next_incident_id w)\<rparr>))))"

subsection \<open>process_incidents\<close>

text \<open>
  Lines 35 to 37: \<open>if not is_credible: analysis.is_credible = False;
  analysis.relevance_score *= 0.5\<close>.
\<close>

definition override_analysis :: "incident_analysis \<Rightarrow> bool \<Rightarrow> incident_analysis" where
  "override_analysis analysis credible =
     (if \<not> credible
      then analysis\<lparr>is_credible := False, relevance_score := relevance_score analysis * 0.5\<rparr>
      else analysis)"

text \<open>
  One iteration of the loop: the incident appended to \<open>processed_incidents\<close>, if any,
  and the new state. An exception inside the \<open>try\<close> is logged and the incident skipped.
\<close>

definition process_incident ::
  "(string \<Rightarrow> incident_analysis option) \<Rightarrow> incident_data \<Rightarrow> responses \<Rightarrow> world \<Rightarrow>
   incident option \<times> world" where
  "process_incident parse d r w =
     (case analyze_incident parse (analysis_reply r)
             (title d) (Some (description d)) (source d) (location d) of
        Inl e \<Rightarrow> (None, w)
      | Inr primary \<Rightarrow>
          (let credible = filter_credible_sources (credibility_reply r) (description d) (url d);
               analysis = override_analysis primary credible
           in if relevance_score analysis \<ge> 0.3 \<and> is_credible analysis then
                (case save_analyzed_incident (now r) (save_db_ok r) d analysis w of
                   (None, w1) \<Rightarrow> (None, w1)
                 | (Some inc, w1) \<Rightarrow>
                     if severity analysis \<in> set [''high'', ''critical'']
                        \<and> relevance_score analysis \<ge> 0.7
                     then (Some inc, send_notifications r inc w1)
                     else (Some inc, w1))
              else (None, w)))"

fun process_incidents ::
  "(string \<Rightarrow> incident_analysis option) \<Rightarrow> (incident_data \<times> responses) list \<Rightarrow>
   incident list \<times> world \<Rightarrow> incident list \<times> world" where
  "process_incidents parse [] (processed_incidents, w) = (processed_incidents, w)"
| "process_incidents parse ((d, r) # rest) (processed_incidents, w) =
     (case process_incident parse d r w of
        (None, w1) \<Rightarrow> process_incidents parse rest (processed_incidents, w1)
      | (Some inc, w1) \<Rightarrow> process_incidents parse rest (processed_incidents @ [inc], w1))"


text \<open>
  The entries into \<open>save_analyzed_incident\<close> and \<open>send_notifications\<close> made while one
  incident is processed.
\<close>

definition new_calls :: "world \<Rightarrow> world \<Rightarrow> call list" where
  "new_calls w w1 = drop (length (calls w)) (calls w1)"

fun is_send_call :: "call \<Rightarrow> bool" where
  "is_send_call (Call_send_notifications n) = True"
| "is_send_call (Call_save_analyzed_incident t s) = False"

fun is_save_call :: "call \<Rightarrow> bool" where
  "is_save_call (Call_save_analyzed_incident t s) = True"
| "is_save_call (Call_send_notifications n) = False"

definition dispatch_triggered ::
  "(string \<Rightarrow> incident_analysis option) \<Rightarrow> incident_data \<Rightarrow> responses \<Rightarrow> world \<Rightarrow> bool" where
  "dispatch_triggered parse d r w =
     list_ex is_send_call (new_calls w (snd (process_incident parse d r w)))"

definition save_called ::
  "(string \<Rightarrow> incident_analysis option) \<Rightarrow> incident_data \<Rightarrow> responses \<Rightarrow> world \<Rightarrow> bool" where
  "save_called parse d r w =
     list_ex is_save_call (new_calls w (snd (process_incident parse d r w)))"


section \<open>agents/data_agent.py\<close>

subsection \<open>fetch_news_data\<close>

text \<open>
  An article of the provider's JSON, by what \<open>article.get(key)\<close> finds under each key.
  \<open>art_json\<close> is the text that \<open>json.dumps(article)\<close> yields.
\<close>

record article =
  art_title :: json_str
  art_description :: json_str
  art_url :: json_str
  art_json :: string

text \<open>Truth value of \<open>article.get(key)\<close>: a missing key, \<open>null\<close> and \<open>""\<close> are false.\<close>

fun truthy :: "json_str \<Rightarrow> bool" where
  "truthy (Str s) = (s \<noteq> [])"
| "truthy Absent = False"
| "truthy Null = False"

text \<open>\<open>str(article.get('title', ''))\<close>.\<close>

fun str_of_title :: "json_str \<Rightarrow> string" where
  "str_of_title (Str s) = s"
| "str_of_title Absent = []"
| "str_of_title Null = ''None''"

text \<open>
  \<open>article.get(key, default)\<close> for the title and the description. A \<open>null\<close> would
  give \<open>None\<close>, which is no string: \<open>fetch_news_data\<close> has skipped such an article
  before it reads the two fields, so that equation is never used.
\<close>

fun get_str :: "json_str \<Rightarrow> string \<Rightarrow> string" where
  "get_str (Str s) dflt = s"
| "get_str Absent dflt = dflt"
| "get_str Null dflt = []"

text \<open>\<open>article.get('url', '')\<close>: \<open>None\<close> is a \<open>null\<close> in the JSON.\<close>

fun get_url :: "json_str \<Rightarrow> string option" where
  "get_url (Str s) = Some s"
| "get_url Absent = Some []"
| "get_url Null = None"

text \<open>The query parameters of one request to \<open>https://newsapi.org/v2/everything\<close>.\<close>

record news_request =
  q :: string
  language :: string
  sortBy :: string
  pageSize :: nat
  from_date :: string

text \<open>
  What one request gives: an exception (transport failure, error status, a body that
  cannot be processed), or the decoded body with its \<open>articles\<close> list, if it has one.
\<close>

datatype news_result = Request_fails | News_data "article list option"

definition news_keywords :: "string list" where
  "news_keywords = [''accident'', ''emergency'', ''police'', ''fire'', ''traffic'', ''closure'',
               ''incident'', ''alert'', ''warning'']"

definition skip_article :: "article \<Rightarrow> bool" where
  "skip_article a =
     (if \<not> truthy (art_title a) \<or> \<not> truthy (art_description a) then True
      else str_in ''[Removed]'' (str_of_title (art_title a)))"

definition news_incident :: "string \<Rightarrow> article \<Rightarrow> incident_data" where
  "news_incident default_location a =
     \<lparr>title = get_str (art_title a) ''News Alert'',
      description = get_str (art_description a) ''Local news incident reported'',
      source = ''news'',
      location = default_location,
      data_category = Str ''other'',
      url = get_url (art_url a),
      raw_data = Some (art_json a)\<rparr>"

fun article_loop :: "string \<Rightarrow> article list \<Rightarrow> incident_data list \<Rightarrow> incident_data list" where
  "article_loop default_location [] collected = collected"
| "article_loop default_location (a # as) collected =
     (if skip_article a then article_loop default_location as collected
      else article_loop default_location as (collected @ [news_incident default_location a]))"

definition news_params :: "string \<Rightarrow> string \<Rightarrow> string \<Rightarrow> news_request" where
  "news_params keyword default_location today =
     \<lparr>q = keyword @ '' AND '' @ default_location,
      language = ''en'',
      sortBy = ''publishedAt'',
      pageSize = 5,
      from_date = today\<rparr>"

text \<open>
  The loop over the keywords. An exception ends the loop; the function then returns
  the incidents gathered before it.
\<close>

fun keyword_loop ::
  "(news_request \<Rightarrow> news_result) \<Rightarrow> string \<Rightarrow> string \<Rightarrow> string list \<Rightarrow>
   incident_data list \<Rightarrow> incident_data list" where
  "keyword_loop api default_location today [] collected = collected"
| "keyword_loop api default_location today (keyword # rest) collected =
     (case api (news_params keyword default_location today) of
        Request_fails \<Rightarrow> collected
      | News_data None \<Rightarrow> keyword_loop api default_location today rest collected
      | News_data (Some articles) \<Rightarrow>
          keyword_loop api default_location today rest
            (article_loop default_location articles collected))"

definition fetch_news_data ::
  "(news_request \<Rightarrow> news_result) \<Rightarrow> string \<Rightarrow> string \<Rightarrow> incident_data list" where
  "fetch_news_data api default_location today =
     keyword_loop api default_location today (take 3 news_keywords) []"

subsection \<open>save_incident\<close>

text \<open>\<open>Incident.query.filter_by(title=..., source=...)\<close>, as a predicate on a row.\<close>

definition title_source_match :: "incident_data \<Rightarrow> incident \<Rightarrow> bool" where
  "title_source_match d row = (inc_title row = title d \<and> inc_source row = source d)"

definition set_analysis :: "incident_analysis option \<Rightarrow> incident \<Rightarrow> incident" where
  "set_analysis analysis row =
     (case analysis of
        None \<Rightarrow> row
      | Some a \<Rightarrow>
          row\<lparr>inc_ai_summary := Some (summary a),
              inc_relevance_score := relevance_score a,
              inc_severity := severity a,
              inc_category := category a,
              inc_is_verified := is_credible a\<rparr>)"

text \<open>\<open>incident_data.get('category', 'other')\<close>: \<open>None\<close> is the Python value \<open>None\<close>.\<close>

fun get_category :: "json_str \<Rightarrow> string option" where
  "get_category (Str c) = Some c"
| "get_category Absent = Some ''other''"
| "get_category Null = None"

text \<open>
  The row of \<open>Incident(...)\<close> before an analysis is set on it, with the category \<open>c\<close>.
  The columns that the constructor is not given take the defaults of \<open>models.py\<close>.
\<close>

definition new_raw_incident :: "nat \<Rightarrow> timestamp \<Rightarrow> incident_data \<Rightarrow> string \<Rightarrow> incident" where
  "new_raw_incident n t d c =
     \<lparr>inc_id = n,
      inc_title = title d,
      inc_description = description d,
      inc_source = source d,
      inc_location = location d,
      inc_severity = ''medium'',
      inc_category = c,
      inc_url = url d,
      inc_raw_data = raw_data d,
      inc_ai_summary = None,
      inc_relevance_score = 0.0,
      inc_is_verified = False,
      inc_created_at = t,
      inc_updated_at = t\<rparr>"

text \<open>
  The category of the new object when it is added: that of the analysis if there is
  one, else what \<open>.get('category', 'other')\<close> gave. The column is \<open>NOT NULL\<close>: with
  \<open>None\<close> the commit raises, the \<open>except\<close> branch rolls back and no row is added. So
  does it when any other database statement raises.
\<close>

definition save_incident ::
  "timestamp \<Rightarrow> bool \<Rightarrow> incident_data \<Rightarrow> incident_analysis option \<Rightarrow> world \<Rightarrow> world" where
  "save_incident t db_ok d analysis w =
     (if \<not> db_ok then w
      else
        (case find (title_source_match d) (incidents w) of
           Some existing \<Rightarrow>
             w\<lparr>incidents :=
                 update_first (title_source_match d)
                   (\<lambda>row. set_analysis analysis (row\<lparr>inc_updated_at := t\<rparr>)) (incidents w)\<rparr>
         | None \<Rightarrow>
             (case (case analysis of
                      None \<Rightarrow> get_category (data_category d)
                    | Some a \<Rightarrow> Some (category a)) of
                None \<Rightarrow> w
              | Some c \<Rightarrow>
                  w\<lparr>incidents :=
                      incidents w
                        @ [set_analysis analysis (new_raw_incident (next_incident_id w) t d c)],
                    next_incident_id := Suc (next_incident_id w)\<rparr>)))"


section \<open>Sample inputs\<close>

text \<open>Stand-ins for the decoder, the email transport and the news provider.\<close>

definition parse_as :: "incident_analysis \<Rightarrow> string \<Rightarrow> incident_analysis option" where
  "parse_as a s = Some a"


definition delivers :: "user \<Rightarrow> email_result" where
  "delivers u = Returns True"

definition flaky_transport :: "user \<Rightarrow> email_result" where
  "flaky_transport u =
     (if user_id u = 1 then Raises ''SMTP timeout''
      else if user_id u = 4 then Returns False
      else Returns True)"

definition high_analysis :: "real \<Rightarrow> bool \<Rightarrow> incident_analysis" where
  "high_analysis x c =
     \<lparr>relevance_score = x, severity = ''high'', category = ''emergency'',
      is_credible = c, summary = ''Fire in Midtown''\<rparr>"

definition sample_data :: incident_data where
  "sample_data =
     \<lparr>title = ''Fire in Midtown'', description = ''Large fire reported near 5th Avenue'',
      source = ''news'', location = ''New York'', data_category = Str ''other'',
      url = Some ''https://example.org/fire'', raw_data = None\<rparr>"

definition sample_users :: "user list" where
  "sample_users =
     [\<lparr>user_id = 1, username = ''ann'', email = ''ann@example.org'',
       user_location = ''New York, NY'', email_notifications = Some True, subscriptions = []\<rparr>,
      \<lparr>user_id = 2, username = ''bob'', email = ''bob@example.org'',
       user_location = ''Boston'', email_notifications = Some True, subscriptions = []\<rparr>,
      \<lparr>user_id = 3, username = ''cy'', email = ''cy@example.org'',
       user_location = ''new york'', email_notifications = Some False, subscriptions = []\<rparr>,
      \<lparr>user_id = 4, username = ''di'', email = ''di@example.org'',
       user_location = ''york'', email_notifications = Some True,
       subscriptions = [\<lparr>sub_location = ''york'', categories = None,
                         min_severity = Some ''critical'', is_active = Some True\<rparr>]\<rparr>,
      \<lparr>user_id = 5, username = ''ed'', email = ''ed@example.org'',
       user_location = ''NEW YORK'', email_notifications = Some True, subscriptions = []\<rparr>]"

definition sample_world :: world where
  "sample_world =
     \<lparr>incidents = [], users = sample_users, notification_logs = [], next_incident_id = 1,
      outbox = [], calls = []\<rparr>"

definition sample_responses :: responses where
  "sample_responses =
     \<lparr>analysis_reply = Llm_text (Some ''{...}''),
      credibility_reply = Llm_text (Some '' True ''),
      now = 1000, save_db_ok = True, users_query_ok = True,
      send_alert_email = delivers, notify_commit_ok = True\<rparr>"

definition sample_incident :: "string \<Rightarrow> incident" where
  "sample_incident sev =
     \<lparr>inc_id = 7, inc_title = ''Fire in Midtown'',
      inc_description = ''Large fire reported near 5th Avenue'', inc_source = ''news'',
      inc_location = ''New York'', inc_severity = sev, inc_category = ''emergency'',
      inc_url = None, inc_raw_data = None, inc_ai_summary = Some ''Fire in Midtown'',
      inc_relevance_score = 0.8, inc_is_verified = True,
      inc_created_at = 1000, inc_updated_at = 1000\<rparr>"

definition old_world :: world where
  "old_world = sample_world\<lparr>incidents := [sample_incident ''high''], next_incident_id := 8\<rparr>"

definition good_article :: "string \<Rightarrow> article" where
  "good_article t =
     \<lparr>art_title = Str t, art_description = Str ''Details'', art_url = Absent,
      art_json = ''{}''\<rparr>"

definition six_articles_api :: "news_request \<Rightarrow> news_result" where
  "six_articles_api req =
     (if q req = ''accident AND New York''
      then News_data (Some [good_article ''Crash 1'', good_article ''Crash 2'',
                            good_article ''Crash 3'', good_article ''Crash 4'',
                            good_article ''Crash 5'', good_article ''Crash 6''])
      else News_data (Some []))"

definition sample_news_api :: "news_request \<Rightarrow> news_result" where
  "sample_news_api req =
     (if q req = ''accident AND New York''
      then News_data (Some [good_article ''Crash on I-95'',
                            good_article ''[Removed]'',
                            (good_article ''Pile-up'')\<lparr>art_description := Null\<rparr>,
                            (good_article ''Pile-up'')\<lparr>art_title := Str []\<rparr>])
      else if q req = ''emergency AND New York'' then News_data None
      else if q req = ''police AND New York''
      then News_data (Some [good_article ''Police close bridge''])
      else Request_fails)"

lemmas sample_defs = sample_data_def sample_responses_def sample_world_def sample_users_def
  high_analysis_def parse_as_def delivers_def


section \<open>The classifier\<close>

lemma sample_analysis:
  "analyze_incident (parse_as a) (analysis_reply sample_responses) (title sample_data)
     (Some (description sample_data)) (source sample_data) (location sample_data) = Inr a"
  by (simp add: sample_defs analyze_incident_def analyze_incident_try_def)

lemma sample_credible:
  "filter_credible_sources (credibility_reply sample_responses) (description sample_data)
     (url sample_data) = True"
  by (simp add: sample_defs filter_credible_sources_def str_lower_def str_strip_def
      is_space_def lower_char_def)





section \<open>The combination rule and the two gates of process_incidents\<close>

lemma new_calls_append [simp]: "calls w1 = calls w @ cs \<Longrightarrow> new_calls w w1 = cs"
  by (simp add: new_calls_def)

lemma calls_send_notifications:
  "calls (send_notifications r inc w) = calls w @ [Call_send_notifications (inc_id inc)]"
  by (simp add: send_notifications_def Let_def split: prod.split)

lemma incidents_send_notifications:
  "incidents (send_notifications r inc w) = incidents w"
  by (simp add: send_notifications_def Let_def split: prod.split)

lemma calls_save_analyzed_incident:
  "calls (snd (save_analyzed_incident t ok d a w)) =
     calls w @ [Call_save_analyzed_incident (title d) (source d)]"
  by (simp add: save_analyzed_incident_def Let_def split: option.split)

lemma save_analyzed_incident_result:
  "fst (save_analyzed_incident t ok d a w) \<noteq> None \<longleftrightarrow> ok"
  by (simp add: save_analyzed_incident_def Let_def split: option.split)

lemma save_analyzed_incident_existing:
  assumes "find (recent_match t d) (incidents w) = Some existing"
  shows "save_analyzed_incident t True d a w =
           (Some (apply_analysis t a existing),
            w\<lparr>calls := calls w @ [Call_save_analyzed_incident (title d) (source d)],
              incidents := update_first (recent_match t d) (apply_analysis t a) (incidents w)\<rparr>)"
  using assms by (simp add: save_analyzed_incident_def Let_def)

lemma save_analyzed_incident_new:
  assumes "find (recent_match t d) (incidents w) = None"
  shows "save_analyzed_incident t True d a w =
           (Some (new_analyzed_incident (next_incident_id w) t d a),
            w\<lparr>calls := calls w @ [Call_save_analyzed_incident (title d) (source d)],
              incidents := incidents w @ [new_analyzed_incident (next_incident_id w) t d a],
              next_incident_id := Suc (next_incident_id w)\<rparr>)"
  using assms by (simp add: save_analyzed_incident_def Let_def)

lemma update_first_member:
  "find P xs = Some x \<Longrightarrow> f x \<in> set (update_first P f xs)"
  by (induction xs) (auto split: if_splits)

lemma save_analyzed_incident_row:
  "\<exists>row\<in>set (incidents (snd (save_analyzed_incident t True d a w))).
      inc_title row = title d \<and> inc_source row = source d
      \<and> inc_relevance_score row = relevance_score a \<and> inc_is_verified row = is_credible a"
proof (cases "find (recent_match t d) (incidents w)")
  case None
  then show ?thesis
    by (simp add: save_analyzed_incident_new new_analyzed_incident_def)
next
  case (Some existing)
  then have m: "recent_match t d existing"
    by (auto simp: find_Some_iff)
  have "apply_analysis t a existing
          \<in> set (update_first (recent_match t d) (apply_analysis t a) (incidents w))"
    using update_first_member [OF Some] .
  then have "apply_analysis t a existing
          \<in> set (incidents (snd (save_analyzed_incident t True d a w)))"
    by (simp add: save_analyzed_incident_existing [OF Some])
  moreover have "inc_title (apply_analysis t a existing) = title d
      \<and> inc_source (apply_analysis t a existing) = source d
      \<and> inc_relevance_score (apply_analysis t a existing) = relevance_score a
      \<and> inc_is_verified (apply_analysis t a existing) = is_credible a"
    using m by (simp add: apply_analysis_def recent_match_def)
  ultimately show ?thesis by blast
qed

text \<open>The calls that one iteration of the loop makes, in order.\<close>

lemma process_incident_calls:
  assumes "analyze_incident parse (analysis_reply r) (title d) (Some (description d)) (source d)
             (location d) = Inr p"
    and "a = override_analysis p
               (filter_credible_sources (credibility_reply r) (description d) (url d))"
  shows "\<exists>n. new_calls w (snd (process_incident parse d r w)) =
           (if relevance_score a \<ge> 0.3 \<and> is_credible a
            then Call_save_analyzed_incident (title d) (source d) #
                 (if save_db_ok r \<and> (severity a = ''high'' \<or> severity a = ''critical'')
                     \<and> relevance_score a \<ge> 0.7
                  then [Call_send_notifications n] else [])
            else [])"
proof (cases "relevance_score a \<ge> 0.3 \<and> is_credible a")
  case False
  then show ?thesis using assms
    by (auto simp: process_incident_def Let_def new_calls_def)
next
  case True
  obtain res w1 where s: "save_analyzed_incident (now r) (save_db_ok r) d a w = (res, w1)"
    by (cases "save_analyzed_incident (now r) (save_db_ok r) d a w")
  have c: "calls w1 = calls w @ [Call_save_analyzed_incident (title d) (source d)]"
    using calls_save_analyzed_incident [of "now r" "save_db_ok r" d a w] s by simp
  have ok: "res \<noteq> None \<longleftrightarrow> save_db_ok r"
    using save_analyzed_incident_result [of "now r" "save_db_ok r" d a w] s by simp
  show ?thesis
  proof (cases res)
    case None
    then show ?thesis using True assms s c ok
      by (simp add: process_incident_def Let_def)
  next
    case (Some inc)
    then show ?thesis using True assms s c ok
      by (auto simp: process_incident_def Let_def calls_send_notifications)
  qed
qed

lemma process_incident_incidents:
  assumes "analyze_incident parse (analysis_reply r) (title d) (Some (description d)) (source d)
             (location d) = Inr p"
    and "a = override_analysis p
               (filter_credible_sources (credibility_reply r) (description d) (url d))"
    and "relevance_score a \<ge> 0.3 \<and> is_credible a"
  shows "incidents (snd (process_incident parse d r w)) =
           incidents (snd (save_analyzed_incident (now r) (save_db_ok r) d a w))"
proof -
  obtain res w1 where s: "save_analyzed_incident (now r) (save_db_ok r) d a w = (res, w1)"
    by (cases "save_analyzed_incident (now r) (save_db_ok r) d a w")
  show ?thesis
    using assms s
    by (cases res) (simp_all add: process_incident_def Let_def incidents_send_notifications)
qed

text \<open>
  C4. When the independent credibility check returns false, the verdict used from then
  on is the primary one with \<open>is_credible\<close> set to false and the relevance multiplied
  by 0.5; when it returns true, the primary verdict is used as it is. This verdict is the
  one that the persistence test of \<open>process_incidents\<close> reads.
\<close>

theorem override_analysis_rule:
  assumes "analyze_incident parse (analysis_reply r) (title d) (Some (description d)) (source d)
             (location d) = Inr p"
    and "credible = filter_credible_sources (credibility_reply r) (description d) (url d)"
  shows "override_analysis p False =
           p\<lparr>is_credible := False, relevance_score := relevance_score p * 0.5\<rparr>
       \<and> override_analysis p True = p
       \<and> (save_called parse d r w \<longleftrightarrow>
            relevance_score (override_analysis p credible) \<ge> 0.3
            \<and> is_credible (override_analysis p credible))"
proof -
  obtain n where "new_calls w (snd (process_incident parse d r w)) =
           (if relevance_score (override_analysis p credible) \<ge> 0.3
               \<and> is_credible (override_analysis p credible)
            then Call_save_analyzed_incident (title d) (source d) #
                 (if save_db_ok r
                     \<and> (severity (override_analysis p credible) = ''high''
                        \<or> severity (override_analysis p credible) = ''critical'')
                     \<and> relevance_score (override_analysis p credible) \<ge> 0.7
                  then [Call_send_notifications n] else [])
            else [])"
    using process_incident_calls [OF assms(1), of "override_analysis p credible" w] assms(2)
    by blast
  then have "save_called parse d r w \<longleftrightarrow>
            relevance_score (override_analysis p credible) \<ge> 0.3
            \<and> is_credible (override_analysis p credible)"
    by (auto simp: save_called_def)
  then show ?thesis
    by (simp add: override_analysis_def)
qed

theorem override_analysis_rule_witness:
  "override_analysis (high_analysis 0.8 True) False = high_analysis 0.4 False
   \<and> override_analysis (high_analysis 0.8 True) True = high_analysis 0.8 True
   \<and> \<not> save_called (parse_as (high_analysis 0.8 True)) sample_data
         (sample_responses\<lparr>credibility_reply := Llm_text (Some ''false'')\<rparr>) sample_world"
proof -
  have a: "analyze_incident (parse_as (high_analysis 0.8 True))
       (analysis_reply (sample_responses\<lparr>credibility_reply := Llm_text (Some ''false'')\<rparr>))
       (title sample_data) (Some (description sample_data)) (source sample_data)
       (location sample_data) = Inr (high_analysis 0.8 True)"
    using sample_analysis [of "high_analysis 0.8 True"] by (simp add: sample_responses_def)
  have c: "False = filter_credible_sources
       (credibility_reply (sample_responses\<lparr>credibility_reply := Llm_text (Some ''false'')\<rparr>))
       (description sample_data) (url sample_data)"
    by (simp add: filter_credible_sources_def str_lower_def str_strip_def is_space_def
        lower_char_def)
  show ?thesis
    using override_analysis_rule [OF a c, of sample_world]
    by (simp add: high_analysis_def)
qed

text \<open>
  Every iteration of \<open>process_incidents\<close> is one \<open>process_incident\<close>, run on the state
  that the iterations before it have left.
\<close>

lemma process_incidents_step:
  "process_incidents parse ((d, r) # rest) (processed, w) =
     process_incidents parse rest
       (processed @ (case fst (process_incident parse d r w) of None \<Rightarrow> [] | Some inc \<Rightarrow> [inc]),
        snd (process_incident parse d r w))"
  by (simp split: prod.split option.split)

text \<open>
  C1, as the code has it. Let \<open>a\<close> be the verdict after the combination rule. While an
  incident is processed, \<open>send_notifications\<close> is entered if and only if the severity
  of \<open>a\<close> is "high" or "critical", its relevance is at least 0.7, \<open>a\<close> is credible
  (the incident has passed the persistence gate) and \<open>save_analyzed_incident\<close> has
  returned an incident. So severity "high" with relevance 0.69 never dispatches, and
  severity "high" with relevance 0.70 dispatches when the verdict is credible and the save
  goes through.
\<close>

theorem dispatch_gate:
  assumes "analyze_incident parse (analysis_reply r) (title d) (Some (description d)) (source d)
             (location d) = Inr p"
    and "a = override_analysis p
               (filter_credible_sources (credibility_reply r) (description d) (url d))"
  shows "dispatch_triggered parse d r w \<longleftrightarrow>
           (severity a = ''high'' \<or> severity a = ''critical'') \<and> relevance_score a \<ge> 0.7
           \<and> is_credible a \<and> save_db_ok r"
proof -
  obtain n where "new_calls w (snd (process_incident parse d r w)) =
           (if relevance_score a \<ge> 0.3 \<and> is_credible a
            then Call_save_analyzed_incident (title d) (source d) #
                 (if save_db_ok r \<and> (severity a = ''high'' \<or> severity a = ''critical'')
                     \<and> relevance_score a \<ge> 0.7
                  then [Call_send_notifications n] else [])
            else [])"
    using process_incident_calls [OF assms] by blast
  then show ?thesis
    by (auto simp: dispatch_triggered_def)
qed

theorem dispatch_gate_witness:
  "dispatch_triggered (parse_as (high_analysis 0.70 True)) sample_data sample_responses
     sample_world
   \<and> \<not> dispatch_triggered (parse_as (high_analysis 0.69 True)) sample_data sample_responses
         sample_world"
  using dispatch_gate [OF sample_analysis, of "high_analysis 0.70 True"
      "high_analysis 0.70 True" sample_world]
    dispatch_gate [OF sample_analysis, of "high_analysis 0.69 True"
      "high_analysis 0.69 True" sample_world]
  by (simp add: sample_credible override_analysis_def) (simp add: sample_defs)

text \<open>
  The claim as an equivalence with the severity and relevance test alone fails: a
  verdict of severity "high" and relevance 0.9 that is not credible stops at the
  persistence gate, and nothing is dispatched.
\<close>

theorem dispatch_gate_counterexample:
  "severity (high_analysis 0.9 False) = ''high''
   \<and> relevance_score (high_analysis 0.9 False) \<ge> 0.7
   \<and> analyze_incident (parse_as (high_analysis 0.9 False)) (analysis_reply sample_responses)
        (title sample_data) (Some (description sample_data)) (source sample_data)
        (location sample_data) = Inr (high_analysis 0.9 False)
   \<and> override_analysis (high_analysis 0.9 False)
        (filter_credible_sources (credibility_reply sample_responses) (description sample_data)
           (url sample_data)) = high_analysis 0.9 False
   \<and> \<not> dispatch_triggered (parse_as (high_analysis 0.9 False)) sample_data sample_responses
         sample_world"
  by (simp add: sample_analysis sample_credible override_analysis_def dispatch_triggered_def
      process_incident_def new_calls_def)
    (simp add: high_analysis_def)

text \<open>
  C2. Let \<open>a\<close> be the verdict after the combination rule. While an incident is processed,
  \<open>save_analyzed_incident\<close> is entered if and only if the relevance of \<open>a\<close> is at least
  0.3 and \<open>a\<close> is credible. An incident that fails this test leaves the tables, the
  outbox and the calls as they were and is not among the processed incidents. One that
  passes it has, when the database statements go through, a row with its title and
  source that carries the relevance and the credibility of \<open>a\<close>.
\<close>

theorem persistence_gate:
  assumes "analyze_incident parse (analysis_reply r) (title d) (Some (description d)) (source d)
             (location d) = Inr p"
    and "a = override_analysis p
               (filter_credible_sources (credibility_reply r) (description d) (url d))"
  shows "(save_called parse d r w \<longleftrightarrow> relevance_score a \<ge> 0.3 \<and> is_credible a)
       \<and> (\<not> (relevance_score a \<ge> 0.3 \<and> is_credible a) \<longrightarrow>
            process_incident parse d r w = (None, w))
       \<and> (relevance_score a \<ge> 0.3 \<and> is_credible a \<and> save_db_ok r \<longrightarrow>
            (\<exists>row\<in>set (incidents (snd (process_incident parse d r w))).
                inc_title row = title d \<and> inc_source row = source d
                \<and> inc_relevance_score row = relevance_score a \<and> inc_is_verified row))"
proof -
  obtain n where "new_calls w (snd (process_incident parse d r w)) =
           (if relevance_score a \<ge> 0.3 \<and> is_credible a
            then Call_save_analyzed_incident (title d) (source d) #
                 (if save_db_ok r \<and> (severity a = ''high'' \<or> severity a = ''critical'')
                     \<and> relevance_score a \<ge> 0.7
                  then [Call_send_notifications n] else [])
            else [])"
    using process_incident_calls [OF assms] by blast
  then have "save_called parse d r w \<longleftrightarrow> relevance_score a \<ge> 0.3 \<and> is_credible a"
    by (auto simp: save_called_def)
  moreover have "\<not> (relevance_score a \<ge> 0.3 \<and> is_credible a) \<longrightarrow>
            process_incident parse d r w = (None, w)"
    using assms by (auto simp: process_incident_def Let_def)
  moreover have "relevance_score a \<ge> 0.3 \<and> is_credible a \<and> save_db_ok r \<longrightarrow>
            (\<exists>row\<in>set (incidents (snd (process_incident parse d r w))).
                inc_title row = title d \<and> inc_source row = source d
                \<and> inc_relevance_score row = relevance_score a \<and> inc_is_verified row)"
  proof
    assume g: "relevance_score a \<ge> 0.3 \<and> is_credible a \<and> save_db_ok r"
    then have "incidents (snd (process_incident parse d r w)) =
           incidents (snd (save_analyzed_incident (now r) True d a w))"
      using process_incident_incidents [OF assms, of w] by simp
    then show "\<exists>row\<in>set (incidents (snd (process_incident parse d r w))).
                inc_title row = title d \<and> inc_source row = source d
                \<and> inc_relevance_score row = relevance_score a \<and> inc_is_verified row"
      using save_analyzed_incident_row [of "now r" d a w] g by auto
  qed
  ultimately show ?thesis by blast
qed

theorem persistence_gate_witness:
  "save_called (parse_as (high_analysis 0.3 True)) sample_data sample_responses sample_world
   \<and> \<not> save_called (parse_as (high_analysis 0.29 True)) sample_data sample_responses
         sample_world
   \<and> process_incident (parse_as (high_analysis 0.29 True)) sample_data sample_responses
       sample_world = (None, sample_world)
   \<and> process_incident (parse_as (high_analysis 0.9 False)) sample_data sample_responses
       sample_world = (None, sample_world)"
  using persistence_gate [OF sample_analysis, of "high_analysis 0.3 True"
      "high_analysis 0.3 True" sample_world]
    persistence_gate [OF sample_analysis, of "high_analysis 0.29 True"
      "high_analysis 0.29 True" sample_world]
    persistence_gate [OF sample_analysis, of "high_analysis 0.9 False"
      "high_analysis 0.9 False" sample_world]
  by (simp add: sample_credible override_analysis_def) (simp add: sample_defs)


section \<open>Subscriber selection\<close>

lemma str_in_sublist: "str_in xs ys = sublist xs ys"
  by (induction ys) (auto simp: sublist_Cons_right)

lemma match_users_filter:
  "match_users inc us acc =
     acc @ filter (\<lambda>u. (sublist (str_lower (user_location u)) (str_lower (inc_location inc))
                        \<or> sublist (str_lower (inc_location inc)) (str_lower (user_location u)))
                       \<and> severity_level (inc_severity inc) \<ge> 2) us"
  by (induction us arbitrary: acc) (auto simp: str_in_sublist Let_def)

lemma get_eligible_users_filter:
  "get_eligible_users True us inc =
     filter (\<lambda>u. email_notifications u = Some True
                 \<and> (sublist (str_lower (user_location u)) (str_lower (inc_location inc))
                    \<or> sublist (str_lower (inc_location inc)) (str_lower (user_location u)))
                 \<and> severity_level (inc_severity inc) \<ge> 2) us"
  by (simp add: get_eligible_users_def match_users_filter conj_commute conj_left_commute
      cong: conj_cong)

lemma eligible_opted_in:
  "filter (\<lambda>u. email_notifications u = Some True) (get_eligible_users ok us inc) =
     get_eligible_users ok us inc"
  by (simp add: get_eligible_users_def match_users_filter conj_commute cong: conj_cong)

lemma sample_eligible:
  "get_eligible_users True sample_users (sample_incident ''high'') =
     [sample_users ! 0, sample_users ! 3, sample_users ! 4]"
  by (simp add: get_eligible_users_filter sample_users_def sample_incident_def str_lower_def
      lower_char_def sublist_code severity_level_def)

text \<open>
  C5. When the user query goes through, \<open>get_eligible_users\<close> returns, in table order,
  exactly the users whose \<open>email_notifications\<close> flag is set, whose lowercased location
  is a substring of the lowercased incident location or the other way round, and for
  whom the incident's severity ordinal (low 1, medium 2, high 3, critical 4) is at least
  2. The stored subscriptions of a user, with their minimum severity, have no part in
  the selection: replacing them changes nothing but the subscriptions of the users
  returned.
\<close>

theorem get_eligible_users_selects:
  "get_eligible_users True us inc =
     filter (\<lambda>u. email_notifications u = Some True
                 \<and> (sublist (str_lower (user_location u)) (str_lower (inc_location inc))
                    \<or> sublist (str_lower (inc_location inc)) (str_lower (user_location u)))
                 \<and> severity_level (inc_severity inc) \<ge> 2) us
   \<and> severity_level ''low'' = 1 \<and> severity_level ''medium'' = 2
   \<and> severity_level ''high'' = 3 \<and> severity_level ''critical'' = 4
   \<and> get_eligible_users True (map (\<lambda>u. u\<lparr>subscriptions := f u\<rparr>) us) inc =
       map (\<lambda>u. u\<lparr>subscriptions := f u\<rparr>) (get_eligible_users True us inc)"
proof -
  have "severity_level ''low'' = 1 \<and> severity_level ''medium'' = 2
      \<and> severity_level ''high'' = 3 \<and> severity_level ''critical'' = 4"
    by (simp add: severity_level_def)
  moreover have "get_eligible_users True (map (\<lambda>u. u\<lparr>subscriptions := f u\<rparr>) us) inc =
       map (\<lambda>u. u\<lparr>subscriptions := f u\<rparr>) (get_eligible_users True us inc)"
    by (simp add: get_eligible_users_filter filter_map comp_def)
  ultimately show ?thesis
    using get_eligible_users_filter [of us inc] by blast
qed

theorem get_eligible_users_selects_witness:
  "map user_id (get_eligible_users True sample_users (sample_incident ''high'')) = [1, 4, 5]
   \<and> get_eligible_users True sample_users (sample_incident ''low'') = []"
  using get_eligible_users_selects [of sample_users "sample_incident ''high''"]
    get_eligible_users_selects [of sample_users "sample_incident ''low''"]
  by (simp add: sample_users_def sample_incident_def str_lower_def lower_char_def
      sublist_code severity_level_def)

text \<open>
  C10. A severity string other than "low", "medium", "high" and "critical" gets the
  ordinal 2, that of "medium". An incident with such a severity passes the floor, and
  every user with the flag set and a matching location is returned for it.
\<close>

theorem unknown_severity_passes_floor:
  assumes "sev \<notin> set [''low'', ''medium'', ''high'', ''critical'']"
  shows "severity_level sev = 2
       \<and> severity_level sev = severity_level ''medium''
       \<and> (inc_severity inc = sev \<longrightarrow>
            get_eligible_users True us inc =
              filter (\<lambda>u. email_notifications u = Some True
                 \<and> (sublist (str_lower (user_location u)) (str_lower (inc_location inc))
                    \<or> sublist (str_lower (inc_location inc)) (str_lower (user_location u)))) us)"
proof -
  have l: "severity_level sev = 2"
    using assms by (simp add: severity_level_def)
  moreover have "severity_level ''medium'' = 2"
    by (simp add: severity_level_def)
  ultimately show ?thesis
    by (auto simp: get_eligible_users_filter)
qed

theorem unknown_severity_passes_floor_witness:
  "severity_level ''High'' = 2
   \<and> map user_id (get_eligible_users True sample_users (sample_incident ''High'')) = [1, 4, 5]"
  using unknown_severity_passes_floor [of "''High''" "sample_incident ''High''" sample_users]
  by (simp add: sample_users_def sample_incident_def str_lower_def lower_char_def
      sublist_code)


section \<open>The two save paths\<close>

lemma length_update_first [simp]: "length (update_first P f xs) = length xs"
  by (induction xs) auto

lemma update_first_append_last:
  "\<forall>x\<in>set xs. \<not> P x \<Longrightarrow> P y \<Longrightarrow> update_first P f (xs @ [y]) = xs @ [f y]"
  by (induction xs) auto

lemma find_append_last:
  "\<forall>x\<in>set xs. \<not> P x \<Longrightarrow> P y \<Longrightarrow> find P (xs @ [y]) = Some y"
  by (induction xs) auto

lemma update_first_split:
  "\<forall>x\<in>set pre. \<not> P x \<Longrightarrow> P y \<Longrightarrow> update_first P f (pre @ y # post) = pre @ f y # post"
  by (induction pre) auto

lemma find_split:
  "\<forall>x\<in>set pre. \<not> P x \<Longrightarrow> P y \<Longrightarrow> find P (pre @ y # post) = Some y"
  by (induction pre) auto

lemma save_incident_merges:
  assumes "incidents w = pre @ old # post"
    and "\<forall>x\<in>set pre. \<not> (inc_title x = title d \<and> inc_source x = source d)"
    and "inc_title old = title d \<and> inc_source old = source d"
  shows "incidents (save_incident t True d analysis w) =
           pre @ set_analysis analysis (old\<lparr>inc_updated_at := t\<rparr>) # post"
proof -
  have p: "\<forall>x\<in>set pre. \<not> title_source_match d x"
    using assms(2) by (simp add: title_source_match_def)
  have m: "title_source_match d old"
    using assms(3) by (simp add: title_source_match_def)
  have f: "find (title_source_match d) (incidents w) = Some old"
    using find_split [OF p m] assms(1) by simp
  have "incidents (save_incident t True d analysis w) =
          update_first (title_source_match d)
            (\<lambda>row. set_analysis analysis (row\<lparr>inc_updated_at := t\<rparr>)) (incidents w)"
    using f by (simp add: save_incident_def)
  then show ?thesis
    using update_first_split [OF p m] assms(1) by simp
qed

lemma save_analyzed_incident_duplicates:
  assumes "\<forall>x\<in>set (incidents w). inc_title x = title d \<and> inc_source x = source d
             \<longrightarrow> inc_created_at x < t - hours_24"
  shows "incidents (snd (save_analyzed_incident t True d a w)) =
           incidents w @ [new_analyzed_incident (next_incident_id w) t d a]"
proof -
  have "find (recent_match t d) (incidents w) = None"
    using assms by (auto simp: find_None_iff recent_match_def)
  then show ?thesis
    by (simp add: save_analyzed_incident_new)
qed

lemma save_analyzed_incident_length:
  "length (incidents (snd (save_analyzed_incident t True d a w))) =
     (if \<exists>row\<in>set (incidents w). inc_title row = title d \<and> inc_source row = source d
            \<and> inc_created_at row \<ge> t - hours_24
      then length (incidents w) else Suc (length (incidents w)))"
proof (cases "find (recent_match t d) (incidents w)")
  case None
  then have "\<not> (\<exists>row\<in>set (incidents w). inc_title row = title d \<and> inc_source row = source d
            \<and> inc_created_at row \<ge> t - hours_24)"
    by (simp add: find_None_iff recent_match_def)
  then show ?thesis
    using None by (simp add: save_analyzed_incident_def Let_def)
next
  case (Some row)
  then have "\<exists>row\<in>set (incidents w). inc_title row = title d \<and> inc_source row = source d
            \<and> inc_created_at row \<ge> t - hours_24"
    by (auto simp: find_Some_iff recent_match_def)
  then show ?thesis
    using Some by (simp add: save_analyzed_incident_def Let_def)
qed

text \<open>
  C6. Let \<open>old\<close> be the first row of the table with the title and source of the
  incident, and let the database statements go through. \<open>save_incident\<close> finds \<open>old\<close>
  whatever its age: it adds no row and leaves every row as it was but \<open>old\<close>, whose
  update time it sets and on which it sets the analysis fields when it is given an
  analysis. \<open>save_analyzed_incident\<close> looks only at rows created within the last 24
  hours: it adds a row exactly when no row with the title and source is that recent.
  So when every row with the title and source is older than 24 hours, the first merges
  the incident into \<open>old\<close> and the second leaves all rows as they were and appends a
  second row with the same title and source, created now.
\<close>

theorem dedup_windows_differ:
  assumes "incidents w = pre @ old # post"
    and "\<forall>x\<in>set pre. \<not> (inc_title x = title d \<and> inc_source x = source d)"
    and "inc_title old = title d \<and> inc_source old = source d"
    and "merged = (case analysis of
                     None \<Rightarrow> old\<lparr>inc_updated_at := t\<rparr>
                   | Some v \<Rightarrow> old\<lparr>inc_updated_at := t,
                                   inc_ai_summary := Some (summary v),
                                   inc_relevance_score := relevance_score v,
                                   inc_severity := severity v,
                                   inc_category := category v,
                                   inc_is_verified := is_credible v\<rparr>)"
    and "added = incidents (snd (save_analyzed_incident t True d a w))"
  shows "incidents (save_incident t True d analysis w) = pre @ merged # post
       \<and> inc_id merged = inc_id old \<and> inc_title merged = title d
       \<and> inc_source merged = source d \<and> inc_description merged = inc_description old
       \<and> inc_created_at merged = inc_created_at old
       \<and> length added =
           (if \<exists>row\<in>set (incidents w). inc_title row = title d \<and> inc_source row = source d
                  \<and> inc_created_at row \<ge> t - hours_24
            then length (incidents w) else Suc (length (incidents w)))
       \<and> ((\<forall>x\<in>set (incidents w). inc_title x = title d \<and> inc_source x = source d
               \<longrightarrow> inc_created_at x < t - hours_24) \<longrightarrow>
            (\<exists>row. added = pre @ old # post @ [row]
                \<and> inc_title row = title d \<and> inc_source row = source d
                \<and> inc_description row = description d \<and> inc_created_at row = t
                \<and> inc_id row = next_incident_id w))"
proof -
  have m: "incidents (save_incident t True d analysis w) = pre @ merged # post"
    using save_incident_merges [OF assms(1,2,3), of t analysis] assms(4)
    by (simp add: set_analysis_def split: option.split)
  have f: "inc_id merged = inc_id old \<and> inc_title merged = title d
       \<and> inc_source merged = source d \<and> inc_description merged = inc_description old
       \<and> inc_created_at merged = inc_created_at old"
    using assms(3,4) by (simp split: option.split)
  have l: "length added =
           (if \<exists>row\<in>set (incidents w). inc_title row = title d \<and> inc_source row = source d
                  \<and> inc_created_at row \<ge> t - hours_24
            then length (incidents w) else Suc (length (incidents w)))"
    using assms(5) save_analyzed_incident_length [of t d a w] by simp
  have d: "(\<forall>x\<in>set (incidents w). inc_title x = title d \<and> inc_source x = source d
               \<longrightarrow> inc_created_at x < t - hours_24) \<longrightarrow>
            (\<exists>row. added = pre @ old # post @ [row]
                \<and> inc_title row = title d \<and> inc_source row = source d
                \<and> inc_description row = description d \<and> inc_created_at row = t
                \<and> inc_id row = next_incident_id w)"
  proof
    assume o: "\<forall>x\<in>set (incidents w). inc_title x = title d \<and> inc_source x = source d
               \<longrightarrow> inc_created_at x < t - hours_24"
    have "added = pre @ old # post @ [new_analyzed_incident (next_incident_id w) t d a]"
      using save_analyzed_incident_duplicates [OF o, of a] assms(1,5) by simp
    then show "\<exists>row. added = pre @ old # post @ [row]
                \<and> inc_title row = title d \<and> inc_source row = source d
                \<and> inc_description row = description d \<and> inc_created_at row = t
                \<and> inc_id row = next_incident_id w"
      by (simp add: new_analyzed_incident_def)
  qed
  show ?thesis
    using m f l d by blast
qed

theorem dedup_windows_differ_witness:
  "incidents (save_incident (1000 + hours_24 + 1) True sample_data None old_world) =
     [(sample_incident ''high'')\<lparr>inc_updated_at := 1000 + hours_24 + 1\<rparr>]
   \<and> map (\<lambda>row. (inc_id row, inc_title row, inc_source row, inc_created_at row))
       (incidents (snd (save_analyzed_incident (1000 + hours_24 + 1) True sample_data
          (high_analysis 0.8 True) old_world))) =
     [(7, ''Fire in Midtown'', ''news'', 1000),
      (8, ''Fire in Midtown'', ''news'', 1000 + hours_24 + 1)]"
proof -
  have i: "incidents old_world = [] @ sample_incident ''high'' # []"
    by (simp add: old_world_def)
  have p: "\<forall>x\<in>set []. \<not> (inc_title x = title sample_data \<and> inc_source x = source sample_data)"
    by simp
  have o: "inc_title (sample_incident ''high'') = title sample_data
         \<and> inc_source (sample_incident ''high'') = source sample_data"
    by (simp add: sample_incident_def sample_data_def)
  have n: "next_incident_id old_world = 8"
    by (simp add: old_world_def)
  have c: "inc_created_at (sample_incident ''high'') = 1000"
    "inc_id (sample_incident ''high'') = 7" "inc_title (sample_incident ''high'') = ''Fire in Midtown''"
    "inc_source (sample_incident ''high'') = ''news''"
    "title sample_data = ''Fire in Midtown''" "source sample_data = ''news''"
    by (simp_all add: sample_incident_def sample_data_def)
  show ?thesis
    using dedup_windows_differ [OF i p o refl refl, of "1000 + hours_24 + 1" None
        "high_analysis 0.8 True"]
    by (auto simp: i n c)
qed

text \<open>
  C7. Take a table with no row of the incident's title and source from the last 24
  hours, and call \<open>save_analyzed_incident\<close> twice with that title and source, the second
  call no earlier than the first and at most 24 hours after it, the database statements
  going through. The first call appends one row; the second appends none and changes,
  in that row, the summary, relevance, severity, category, verified flag and update time
  only. Title, description, source, location, url, raw data and creation time stay
  those of the first call.
\<close>

theorem save_twice_one_row:
  assumes "\<not> (\<exists>row\<in>set (incidents w). inc_title row = title d1 \<and> inc_source row = source d1
                \<and> inc_created_at row \<ge> t1 - hours_24)"
    and "title d2 = title d1" and "source d2 = source d1"
    and "t1 \<le> t2" and "t2 - hours_24 \<le> t1"
    and "w1 = snd (save_analyzed_incident t1 True d1 a1 w)"
    and "w2 = snd (save_analyzed_incident t2 True d2 a2 w1)"
    and "row1 = new_analyzed_incident (next_incident_id w) t1 d1 a1"
  shows "incidents w1 = incidents w @ [row1]
       \<and> incidents w2 = incidents w @
           [row1\<lparr>inc_ai_summary := Some (summary a2),
                 inc_relevance_score := relevance_score a2,
                 inc_severity := severity a2,
                 inc_category := category a2,
                 inc_is_verified := is_credible a2,
                 inc_updated_at := t2\<rparr>]
       \<and> length (incidents w2) = Suc (length (incidents w))
       \<and> inc_title row1 = title d1 \<and> inc_description row1 = description d1
       \<and> inc_source row1 = source d1 \<and> inc_location row1 = location d1
       \<and> inc_url row1 = url d1 \<and> inc_raw_data row1 = raw_data d1
       \<and> inc_created_at row1 = t1"
proof -
  have none1: "find (recent_match t1 d1) (incidents w) = None"
    using assms(1) by (auto simp: find_None_iff recent_match_def)
  have w1: "incidents w1 = incidents w @ [row1]"
    using save_analyzed_incident_new [OF none1, of a1] assms(6,8) by simp
  have old: "\<forall>x\<in>set (incidents w). \<not> recent_match t2 d2 x"
    using assms(1-4) by (auto simp: recent_match_def)
  have new: "recent_match t2 d2 row1"
    using assms(2,3,5,8) by (simp add: recent_match_def new_analyzed_incident_def)
  have f2: "find (recent_match t2 d2) (incidents w1) = Some row1"
    using find_append_last [OF old new] w1 by simp
  have "incidents w2 = update_first (recent_match t2 d2) (apply_analysis t2 a2) (incidents w1)"
    using save_analyzed_incident_existing [OF f2, of a2] assms(7) by simp
  then have w2: "incidents w2 = incidents w @ [apply_analysis t2 a2 row1]"
    using update_first_append_last [OF old new] w1 by simp
  show ?thesis
    using w1 w2 assms(8) by (simp add: apply_analysis_def new_analyzed_incident_def)
qed

theorem save_twice_one_row_witness:
  "map inc_description (incidents (snd (save_analyzed_incident (1000 + hours_24) True
       (sample_data\<lparr>description := ''Update''\<rparr>) (high_analysis 0.8 True)
       (snd (save_analyzed_incident 1000 True sample_data (high_analysis 0.3 True) sample_world)))))
     = [''Large fire reported near 5th Avenue'']
   \<and> map inc_relevance_score (incidents (snd (save_analyzed_incident (1000 + hours_24) True
       (sample_data\<lparr>description := ''Update''\<rparr>) (high_analysis 0.8 True)
       (snd (save_analyzed_incident 1000 True sample_data (high_analysis 0.3 True) sample_world)))))
     = [0.8]"
  using save_twice_one_row [of sample_world sample_data 1000
      "sample_data\<lparr>description := ''Update''\<rparr>" "1000 + hours_24" _ "high_analysis 0.3 True"
      _ "high_analysis 0.8 True" _, OF _ _ _ _ _ refl refl refl]
  by (simp add: sample_world_def sample_data_def high_analysis_def new_analyzed_incident_def
      hours_24_def)


section \<open>The notification log\<close>

lemma notify_users_maps:
  "notify_users send inc us (attempts, added) =
     (attempts @ map (\<lambda>u. (user_id u, inc_id inc))
                    (filter (\<lambda>u. email_notifications u = Some True) us),
      added @ map (\<lambda>u. \<lparr>log_incident_id = inc_id inc,
                          log_user_id = user_id u,
                          notification_type = ''email'',
                          status = (if send u = Returns True then ''sent'' else ''failed''),
                          error_message =
                            (case send u of
                               Returns ok \<Rightarrow> if ok then None else Some ''Email sending failed''
                             | Raises e \<Rightarrow> Some e)\<rparr>)
                  (filter (\<lambda>u. email_notifications u = Some True) us))"
  by (induction us arbitrary: attempts added) (auto split: email_result.split)

text \<open>
  C8. In one run of \<open>send_notifications\<close> the transport is called once for every
  eligible user, in order, whatever it did for the users before; for every such call one
  \<open>NotificationLog\<close> is added, with status "sent" when the transport returned true and
  "failed" when it returned false or raised, and with an error message whenever the
  status is "failed". The added rows reach the table together when the final commit goes
  through, and none of them does when it fails.
\<close>

theorem one_log_per_attempt:
  assumes "eligible = get_eligible_users (users_query_ok r) (users w) inc"
    and "entry = (\<lambda>u. \<lparr>log_incident_id = inc_id inc,
                          log_user_id = user_id u,
                          notification_type = ''email'',
                          status = (if send_alert_email r u = Returns True
                                    then ''sent'' else ''failed''),
                          error_message =
                            (case send_alert_email r u of
                               Returns ok \<Rightarrow> if ok then None else Some ''Email sending failed''
                             | Raises e \<Rightarrow> Some e)\<rparr>)"
  shows "notify_users (send_alert_email r) inc eligible ([], []) =
           (map (\<lambda>u. (user_id u, inc_id inc)) eligible, map entry eligible)
       \<and> outbox (send_notifications r inc w) =
           outbox w @ map (\<lambda>u. (user_id u, inc_id inc)) eligible
       \<and> notification_logs (send_notifications r inc w) =
           (if notify_commit_ok r then notification_logs w @ map entry eligible
            else notification_logs w)
       \<and> (\<forall>u\<in>set eligible. status (entry u) = ''failed'' \<longrightarrow> error_message (entry u) \<noteq> None)"
proof -
  have n: "notify_users (send_alert_email r) inc eligible ([], []) =
           (map (\<lambda>u. (user_id u, inc_id inc)) eligible, map entry eligible)"
    using assms eligible_opted_in [of "users_query_ok r" "users w" inc]
    by (simp add: notify_users_maps)
  have e: "\<forall>u\<in>set eligible. status (entry u) = ''failed'' \<longrightarrow> error_message (entry u) \<noteq> None"
    using assms(2) by (auto split: email_result.split)
  have o: "outbox (send_notifications r inc w) =
           outbox w @ map (\<lambda>u. (user_id u, inc_id inc)) eligible"
    using n assms(1) by (simp add: send_notifications_def Let_def)
  have l: "notification_logs (send_notifications r inc w) =
           (if notify_commit_ok r then notification_logs w @ map entry eligible
            else notification_logs w)"
    using n assms(1) by (simp add: send_notifications_def Let_def)
  show ?thesis
    using n o l e by blast
qed

theorem one_log_per_attempt_witness:
  "outbox (send_notifications (sample_responses\<lparr>send_alert_email := flaky_transport\<rparr>)
            (sample_incident ''high'') sample_world) = [(1, 7), (4, 7), (5, 7)]
   \<and> map (\<lambda>l. (log_user_id l, status l, error_message l))
        (notification_logs (send_notifications
            (sample_responses\<lparr>send_alert_email := flaky_transport\<rparr>)
            (sample_incident ''high'') sample_world)) =
       [(1, ''failed'', Some ''SMTP timeout''), (4, ''failed'', Some ''Email sending failed''),
        (5, ''sent'', None)]"
proof -
  have u: "users_query_ok (sample_responses\<lparr>send_alert_email := flaky_transport\<rparr>) = True"
    "users sample_world = sample_users"
    "notify_commit_ok (sample_responses\<lparr>send_alert_email := flaky_transport\<rparr>) = True"
    "send_alert_email (sample_responses\<lparr>send_alert_email := flaky_transport\<rparr>)
       = flaky_transport"
    "outbox sample_world = []" "notification_logs sample_world = []"
    by (simp_all add: sample_responses_def sample_world_def)
  have i: "inc_id (sample_incident ''high'') = 7"
    by (simp add: sample_incident_def)
  show ?thesis
    using one_log_per_attempt
      [where r = "sample_responses\<lparr>send_alert_email := flaky_transport\<rparr>"
         and w = sample_world and inc = "sample_incident ''high''", OF refl refl]
    by (simp only: u sample_eligible i) (simp add: sample_users_def flaky_transport_def)
qed


section \<open>The news extractor\<close>

lemma article_loop_filter:
  "article_loop loc arts acc =
     acc @ map (news_incident loc) (filter (\<lambda>a. \<not> skip_article a) arts)"
  by (induction arts arbitrary: acc) auto

lemma keyword_loop_concat:
  "keyword_loop api loc today ks acc =
     acc @ concat (map (\<lambda>k. case api (news_params k loc today) of
                              News_data (Some arts) \<Rightarrow>
                                map (news_incident loc) (filter (\<lambda>a. \<not> skip_article a) arts)
                            | _ \<Rightarrow> [])
                     (takeWhile (\<lambda>k. api (news_params k loc today) \<noteq> Request_fails) ks))"
  by (induction ks arbitrary: acc)
    (auto simp: article_loop_filter split: news_result.split option.split)

lemma skip_article_iff:
  "skip_article a \<longleftrightarrow>
     \<not> (\<exists>s. art_title a = Str s \<and> s \<noteq> []) \<or> \<not> (\<exists>s. art_description a = Str s \<and> s \<noteq> [])
     \<or> (\<exists>s. art_title a = Str s \<and> sublist ''[Removed]'' s)"
  by (cases "art_title a"; cases "art_description a")
    (auto simp: skip_article_def str_in_sublist)

text \<open>
  C9, as the code has it. \<open>fetch_news_data\<close> queries the first three keywords in order,
  each as "keyword AND location" with a page size of 5, and stops at the first request
  that fails. From every response it has received it leaves out each article that has
  no non-empty title or no non-empty description and each article whose title contains
  "[Removed]", and it includes every other article, in order. It never shortens a
  response itself: five per keyword is what it asks of the provider.
\<close>

theorem fetch_news_data_includes:
  "fetch_news_data api loc today =
     concat (map (\<lambda>k. case api (news_params k loc today) of
                         News_data (Some arts) \<Rightarrow>
                           map (news_incident loc) (filter (\<lambda>a. \<not> skip_article a) arts)
                       | _ \<Rightarrow> [])
              (takeWhile (\<lambda>k. api (news_params k loc today) \<noteq> Request_fails)
                 [''accident'', ''emergency'', ''police'']))
   \<and> (skip_article a \<longleftrightarrow>
        \<not> (\<exists>s. art_title a = Str s \<and> s \<noteq> []) \<or> \<not> (\<exists>s. art_description a = Str s \<and> s \<noteq> [])
        \<or> (\<exists>s. art_title a = Str s \<and> sublist ''[Removed]'' s))
   \<and> q (news_params k loc today) = k @ '' AND '' @ loc
   \<and> pageSize (news_params k loc today) = 5"
proof -
  have "take 3 news_keywords = [''accident'', ''emergency'', ''police'']"
    by (simp add: news_keywords_def)
  then have "fetch_news_data api loc today =
     concat (map (\<lambda>k. case api (news_params k loc today) of
                         News_data (Some arts) \<Rightarrow>
                           map (news_incident loc) (filter (\<lambda>a. \<not> skip_article a) arts)
                       | _ \<Rightarrow> [])
              (takeWhile (\<lambda>k. api (news_params k loc today) \<noteq> Request_fails)
                 [''accident'', ''emergency'', ''police'']))"
    by (simp only: fetch_news_data_def keyword_loop_concat append_Nil)
  then show ?thesis
    using skip_article_iff [of a] by (simp add: news_params_def)
qed

theorem fetch_news_data_includes_witness:
  "map title (fetch_news_data sample_news_api ''New York'' ''2026-11-03'') =
     [''Crash on I-95'', ''Police close bridge'']"
  using fetch_news_data_includes [of sample_news_api "''New York''" "''2026-11-03''"]
  by (simp add: sample_news_api_def news_params_def good_article_def skip_article_def
      news_incident_def)

text \<open>
  A response to the first keyword that carries six well-formed articles yields six
  incidents for that keyword, although the request asked for five.
\<close>

theorem fetch_news_data_cap_counterexample:
  "length (fetch_news_data six_articles_api ''New York'' ''2026-11-03'') = 6
   \<and> pageSize (news_params ''accident'' ''New York'' ''2026-11-03'') = 5"
  by (simp add: fetch_news_data_def news_keywords_def six_articles_api_def news_params_def
      good_article_def skip_article_def news_incident_def)

end
